theory Spec2Isabelle
  imports Main "HOL-Library.Word"
begin

section \<open>Data model\<close>

text \<open>
  The wallet facade of \<^verbatim>\<open>src/Wallet/WalletManagerImpl.cpp\<close>. Amounts, heights and
  confirmation counts are \<^verbatim>\<open>uint64_t\<close>; the master seed is a \<^verbatim>\<open>CBigInteger<32>\<close>
  (32 bytes).
\<close>

type_synonym uint64_t = "64 word"
type_synonym CBigInteger32 = "256 word"
type_synonym SecureString = string
type_synonym EncryptedSeed = "8 word list"

text \<open>
  Modelled from the spec: the declaration of \<^verbatim>\<open>EOutputStatus\<close> is not among the
  sources; only the enumerators \<^verbatim>\<open>LOCKED\<close> and \<^verbatim>\<open>UNSPENT\<close> occur in the facade. The
  spec's data model lists the status tags UNSPENT, LOCKED, IMMATURE and
  SPENT/AWAITING-CONFIRMATION.
\<close>

datatype EOutputStatus = UNSPENT | LOCKED | IMMATURE | SPENT

text \<open>
  \<^verbatim>\<open>OutputData\<close> and \<^verbatim>\<open>WalletCoin\<close> with the accessors the facade calls; the fields are
  named after the accessors.
\<close>

record OutputData =
  GetAmount :: uint64_t
  GetStatus :: EOutputStatus

record WalletCoin =
  GetOutputData :: OutputData

text \<open>
  The loop of \<^verbatim>\<open>WalletManager::GetWalletSummary\<close> (lines 56 to 70) over the four local
  counters, in the order of their declaration. \<^verbatim>\<open>+=\<close> on \<^verbatim>\<open>uint64_t\<close> wraps, as \<open>+\<close>
  on \<^typ>\<open>64 word\<close> does.
\<close>

fun GetWalletSummary_loop ::
  "WalletCoin list \<Rightarrow> uint64_t \<times> uint64_t \<times> uint64_t \<times> uint64_t
     \<Rightarrow> uint64_t \<times> uint64_t \<times> uint64_t \<times> uint64_t" where
  "GetWalletSummary_loop [] (awaitingConfirmation, immature, locked, spendable) =
     (awaitingConfirmation, immature, locked, spendable)"
| "GetWalletSummary_loop (coin # coins) (awaitingConfirmation, immature, locked, spendable) =
     (let outputData = GetOutputData coin;
          amount = GetAmount outputData;
          status = GetStatus outputData
      in if status = LOCKED
         then GetWalletSummary_loop coins (awaitingConfirmation, immature, locked + amount, spendable)
         else if status = UNSPENT
         then GetWalletSummary_loop coins (awaitingConfirmation, immature, locked, spendable + amount)
         else GetWalletSummary_loop coins (awaitingConfirmation, immature, locked, spendable))"

text \<open>
  \<^verbatim>\<open>WalletSummary\<close>, with one field for each argument of the constructor call of line 72.
\<close>

record WalletSummary =
  m_lastConfirmedHeight :: uint64_t
  m_minimumConfirmations :: uint64_t
  m_awaitingConfirmation :: uint64_t
  m_immature :: uint64_t
  m_locked :: uint64_t
  m_spendable :: uint64_t


section \<open>Errors\<close>

text \<open>
  Modelled from the spec: the exception classes are not among the sources. These are the
  errors of the spec's taxonomy that the operations below raise; a thrown exception is the
  \<open>Inl\<close> branch of a result.
\<close>

datatype WalletError = InvalidSessionError | InsufficientFundsError | InvalidSlateError

section \<open>Collaborators\<close>

text \<open>
  \<^verbatim>\<open>INodeClient\<close>: the facade only calls \<^verbatim>\<open>GetChainHeight()\<close>, which returns a
  \<^verbatim>\<open>uint64_t\<close>.
\<close>

record NodeClient =
  GetChainHeight :: uint64_t

text \<open>
  Modelled from the spec: the class \<^verbatim>\<open>Wallet\<close> is not among the sources. The spec
  calls it a handle on the user's wallet state; the state itself (the owned-output set) is
  persisted by the storage collaborator, by username.
\<close>

datatype Wallet = Wallet (GetUsername: string)

text \<open>
  Modelled from the spec: \<^verbatim>\<open>IWalletDB\<close> is not among the sources. The spec's
  WalletStorage keeps the EncryptedSeed and the owned-output set by username; the slate
  identifiers a wallet has already answered are kept with them (the spec's "already-seen
  kernel nonce").
\<close>

record WalletDB =
  m_seeds :: "string \<rightharpoonup> EncryptedSeed"
  m_outputs :: "string \<Rightarrow> WalletCoin list"
  m_seenSlates :: "string \<Rightarrow> nat list"

text \<open>
  Modelled from the spec: \<^verbatim>\<open>IWalletDB::CreateWallet(username, EncryptedSeed) -> bool\<close>
  is not among the sources. It reports failure on a username collision and stores nothing
  then; otherwise it stores the encrypted seed for a wallet with no outputs.
\<close>

definition CreateWallet :: "WalletDB \<Rightarrow> string \<Rightarrow> EncryptedSeed \<Rightarrow> bool \<times> WalletDB" where
  "CreateWallet db username encryptedSeed =
     (case m_seeds db username of
        Some existing \<Rightarrow> (False, db)
      | None \<Rightarrow>
          (True, db\<lparr>m_seeds := (m_seeds db)(username \<mapsto> encryptedSeed),
                    m_outputs := (m_outputs db)(username := []),
                    m_seenSlates := (m_seenSlates db)(username := [])\<rparr>))"

text \<open>
  Modelled from the spec: \<^verbatim>\<open>Wallet::GetAllAvailableCoins(seed)\<close> is not among the
  sources. It scans the wallet's persisted output set; the seed only confirms ownership.
\<close>

definition GetAllAvailableCoins :: "WalletDB \<Rightarrow> Wallet \<Rightarrow> CBigInteger32 \<Rightarrow> WalletCoin list" where
  "GetAllAvailableCoins db wallet masterSeed = m_outputs db (GetUsername wallet)"

section \<open>Slates and transactions\<close>

text \<open>
  Modelled from the spec: \<^verbatim>\<open>Slate\<close>, \<^verbatim>\<open>Transaction\<close> and \<^verbatim>\<open>ESelectionStrategy\<close> are
  not among the sources. A slate carries the transaction skeleton (selected inputs, outputs
  so far, fee), each participant's public blinding contribution and partial signature, an
  optional message, a phase marker and a transaction-unique identifier. Inputs and outputs
  are represented by their amounts, as natural numbers; the commitment arithmetic is an
  opaque primitive in the spec.
\<close>

datatype ESlatePhase = CREATED | RECEIVED | FINALIZED

datatype ESelectionStrategy = STRATEGY_ALL | STRATEGY_SMALLEST

record ParticipantData =
  m_publicBlindExcess :: nat
  m_publicNonce :: nat
  m_partialSignature :: nat
  m_message :: "string option"

record Slate =
  m_slateId :: nat
  m_phase :: ESlatePhase
  m_amount :: nat
  m_fee :: nat
  m_inputs :: "nat list"
  m_outputs_so_far :: "nat list"
  m_participants :: "ParticipantData list"

record Transaction =
  m_txInputs :: "nat list"
  m_txOutputs :: "nat list"
  m_txFee :: nat
  m_kernelSignature :: nat

text \<open>
  The functions the facade and the modelled components take from elsewhere, as parameters:
  the seed vault (\<^verbatim>\<open>SeedEncrypter\<close>), the mnemonic codec (\<^verbatim>\<open>Mnemonic::CreateMnemonic\<close>), the
  fee policy (the spec leaves the fee-weight formula open: a function of the base rate and
  the numbers of inputs, outputs and kernels) and the signature primitives of the slate
  protocol. Random draws (\<^verbatim>\<open>RandomNumberGenerator::GenerateRandom32()\<close>, the ephemeral
  secrets of a slate) are explicit arguments of the operations that draw them.
\<close>

record Primitives =
  EncryptWalletSeed :: "CBigInteger32 \<Rightarrow> SecureString \<Rightarrow> EncryptedSeed"
  DecryptWalletSeed :: "EncryptedSeed \<Rightarrow> SecureString \<Rightarrow> CBigInteger32 option"
  CreateMnemonic :: "CBigInteger32 \<Rightarrow> SecureString option \<Rightarrow> SecureString"
  CalculateFee :: "uint64_t \<Rightarrow> nat \<Rightarrow> nat \<Rightarrow> nat \<Rightarrow> nat"
  CreateParticipantData ::
    "CBigInteger32 \<Rightarrow> CBigInteger32 \<Rightarrow> nat \<Rightarrow> string option \<Rightarrow> ParticipantData"
  VerifyPartialSignature :: "nat \<Rightarrow> ParticipantData \<Rightarrow> bool"
  AggregateSignatures :: "ParticipantData list \<Rightarrow> nat option"


section \<open>The session registry\<close>

text \<open>
  Modelled from the spec: \<^verbatim>\<open>SessionManager\<close> and \<^verbatim>\<open>SessionToken\<close> are not among the
  sources. The registry binds each token to the decrypted seed and to a handle on the
  user's wallet, in memory. A token is an opaque handle; here it is the number under which
  the registry issued it.
\<close>

type_synonym SessionToken = nat

record LoggedInSession =
  m_seed :: CBigInteger32
  m_wallet :: Wallet

record SessionManager =
  m_sessionsById :: "SessionToken \<rightharpoonup> LoggedInSession"
  m_nextSessionId :: nat

text \<open>
  Modelled from the spec: \<^verbatim>\<open>SessionManager::Login(username, seed)\<close>, the overload used
  right after a wallet is created, is not among the sources. It generates a fresh token
  (the next number, never issued before), stores the binding and returns the token.
\<close>

definition SessionManager_Login_seed ::
  "SessionManager \<Rightarrow> string \<Rightarrow> CBigInteger32 \<Rightarrow> SessionToken \<times> SessionManager" where
  "SessionManager_Login_seed sm username seed =
     (let token = m_nextSessionId sm
      in (token,
          sm\<lparr>m_sessionsById :=
               (m_sessionsById sm)(token \<mapsto> \<lparr>m_seed = seed, m_wallet = Wallet username\<rparr>),
             m_nextSessionId := token + 1\<rparr>))"

text \<open>
  Modelled from the spec: \<^verbatim>\<open>SessionManager::Login(username, passphrase)\<close> is not among
  the sources. It loads the user's EncryptedSeed from the storage, decrypts it with the
  seed vault and binds a fresh token. An unknown user and a wrong passphrase both end as a
  failed login (the facade returns a null pointer then), and bind nothing.
\<close>

definition SessionManager_Login ::
  "Primitives \<Rightarrow> WalletDB \<Rightarrow> SessionManager \<Rightarrow> string \<Rightarrow> SecureString
     \<Rightarrow> SessionToken option \<times> SessionManager" where
  "SessionManager_Login P db sm username password =
     (case m_seeds db username of
        None \<Rightarrow> (None, sm)
      | Some encryptedSeed \<Rightarrow>
          (case DecryptWalletSeed P encryptedSeed password of
             None \<Rightarrow> (None, sm)
           | Some seed \<Rightarrow>
               (case SessionManager_Login_seed sm username seed of
                  (token, sm') \<Rightarrow> (Some token, sm'))))"

text \<open>
  Modelled from the spec: \<^verbatim>\<open>SessionManager::Logout(token)\<close> is not among the sources. It
  removes the binding; logging out a token that is not bound changes nothing.
\<close>

definition SessionManager_Logout :: "SessionManager \<Rightarrow> SessionToken \<Rightarrow> SessionManager" where
  "SessionManager_Logout sm token = sm\<lparr>m_sessionsById := (m_sessionsById sm)(token := None)\<rparr>"

text \<open>
  Modelled from the spec: \<^verbatim>\<open>SessionManager::GetSeed(token)\<close> is not among the sources. It
  fails with \<^verbatim>\<open>InvalidSessionError\<close> if the token is unknown or logged out.
\<close>

definition GetSeed :: "SessionManager \<Rightarrow> SessionToken \<Rightarrow> WalletError + CBigInteger32" where
  "GetSeed sm token =
     (case m_sessionsById sm token of
        None \<Rightarrow> Inl InvalidSessionError
      | Some session \<Rightarrow> Inr (m_seed session))"

text \<open>
  Modelled from the spec: \<^verbatim>\<open>SessionManager::GetWallet(token)\<close> is not among the sources.
  It fails with \<^verbatim>\<open>InvalidSessionError\<close> if the token is unknown or logged out.
\<close>

definition GetWallet :: "SessionManager \<Rightarrow> SessionToken \<Rightarrow> WalletError + Wallet" where
  "GetWallet sm token =
     (case m_sessionsById sm token of
        None \<Rightarrow> Inl InvalidSessionError
      | Some session \<Rightarrow> Inr (m_wallet session))"

section \<open>The slate protocol\<close>

text \<open>
  \<^verbatim>\<open>SlateBuilder\<close> and the coin selection it performs are not among the sources; this
  section models them from sections 4.3 and 4.4 of the spec.
\<close>

text \<open>
  Modelled from the spec: the coins a selection may use, which are not computed in the
  sources. Coin selection works on the positions of the wallet's output list; the
  spendable coins are the UNSPENT ones, as in the summary.
\<close>

definition SpendableCoins :: "WalletCoin list \<Rightarrow> nat list" where
  "SpendableCoins coins =
     filter (\<lambda>i. GetStatus (GetOutputData (coins ! i)) = UNSPENT) [0..<length coins]"

text \<open>
  Modelled from the spec: the total amount of a selection, which is not computed in the
  sources; a sum of natural numbers, so it does not wrap.
\<close>

definition TotalAmount :: "WalletCoin list \<Rightarrow> nat list \<Rightarrow> nat" where
  "TotalAmount coins selection =
     sum_list (map (\<lambda>i. unat (GetAmount (GetOutputData (coins ! i)))) selection)"

text \<open>
  Modelled from the spec: the required fee, which is not computed in the sources. It is
  the policy's value for the base rate and the estimated weight: the inputs of the
  selection, two outputs (the receiver's and the change) and one kernel.
\<close>

definition RequiredFee :: "Primitives \<Rightarrow> uint64_t \<Rightarrow> nat list \<Rightarrow> nat" where
  "RequiredFee P feeBase selection = CalculateFee P feeBase (length selection) 2 1"

text \<open>
  Modelled from the spec: a selection covers the request when its total is at least the
  amount plus the fee; what is left over goes to the change output.
\<close>

definition Covers :: "Primitives \<Rightarrow> WalletCoin list \<Rightarrow> uint64_t \<Rightarrow> uint64_t \<Rightarrow> nat list \<Rightarrow> bool" where
  "Covers P coins amount feeBase selection =
     (unat amount + RequiredFee P feeBase selection \<le> TotalAmount coins selection)"

text \<open>
  Modelled from the spec: the leftover of a selection, which the second strategy
  minimises.
\<close>

definition Leftover :: "Primitives \<Rightarrow> WalletCoin list \<Rightarrow> uint64_t \<Rightarrow> uint64_t \<Rightarrow> nat list \<Rightarrow> nat" where
  "Leftover P coins amount feeBase selection =
     TotalAmount coins selection - (unat amount + RequiredFee P feeBase selection)"

text \<open>
  Modelled from the spec: the selections a strategy considers, which are not computed in
  the sources. \<^verbatim>\<open>ALL\<close> uses every spendable coin; the other strategy considers every
  subset of the spendable coins.
\<close>

definition Candidates :: "ESelectionStrategy \<Rightarrow> WalletCoin list \<Rightarrow> nat list list" where
  "Candidates strategy coins =
     (case strategy of
        STRATEGY_ALL \<Rightarrow> [SpendableCoins coins]
      | STRATEGY_SMALLEST \<Rightarrow> subseqs (SpendableCoins coins))"

text \<open>
  Modelled from the spec: the preference of the second strategy, whose code is not among
  the sources: fewer inputs first, then the smaller leftover.
\<close>

definition Better ::
  "Primitives \<Rightarrow> WalletCoin list \<Rightarrow> uint64_t \<Rightarrow> uint64_t \<Rightarrow> nat list \<Rightarrow> nat list \<Rightarrow> nat list" where
  "Better P coins amount feeBase best selection =
     (if length selection < length best
         \<or> (length selection = length best
              \<and> Leftover P coins amount feeBase selection < Leftover P coins amount feeBase best)
      then selection else best)"

text \<open>
  Modelled from the spec: the coin selection, whose code is not among the sources. It
  selects a subset of the spendable coins that covers the amount plus the fee, the one
  the strategy prefers, and none when no selection the strategy considers covers them.
\<close>

definition SelectCoins ::
  "Primitives \<Rightarrow> ESelectionStrategy \<Rightarrow> WalletCoin list \<Rightarrow> uint64_t \<Rightarrow> uint64_t \<Rightarrow> nat list option" where
  "SelectCoins P strategy coins amount feeBase =
     (case filter (Covers P coins amount feeBase) (Candidates strategy coins) of
        [] \<Rightarrow> None
      | first # others \<Rightarrow> Some (foldl (Better P coins amount feeBase) first others))"

text \<open>
  Modelled from the spec: the marking of the chosen coins, whose code is not among the
  sources. The coins at the selected positions become LOCKED; the others stay as they are.
\<close>

definition LockCoins :: "WalletCoin list \<Rightarrow> nat list \<Rightarrow> WalletCoin list" where
  "LockCoins coins selection =
     map (\<lambda>i. if i \<in> set selection
               then (coins ! i)\<lparr>GetOutputData := (GetOutputData (coins ! i))\<lparr>GetStatus := LOCKED\<rparr>\<rparr>
               else coins ! i)
       [0..<length coins]"

text \<open>
  Modelled from the spec: \<^verbatim>\<open>SlateBuilder::BuildSendSlate\<close> is not among the sources. It
  selects the coins, computes the fee, adds the sender's contribution
  (fresh blinding factor and nonce drawn from \<open>rnd\<close>, partial signature) and locks the
  selected coins. With no covering selection it fails with \<^verbatim>\<open>InsufficientFundsError\<close>.
\<close>

definition BuildSendSlate ::
  "Primitives \<Rightarrow> CBigInteger32 \<Rightarrow> WalletDB \<Rightarrow> Wallet \<Rightarrow> CBigInteger32 \<Rightarrow> uint64_t \<Rightarrow> uint64_t
     \<Rightarrow> string option \<Rightarrow> ESelectionStrategy \<Rightarrow> (WalletError + Slate) \<times> WalletDB" where
  "BuildSendSlate P rnd db wallet masterSeed amount feeBase messageOpt strategy =
     (let coins = GetAllAvailableCoins db wallet masterSeed
      in case SelectCoins P strategy coins amount feeBase of
           None \<Rightarrow> (Inl InsufficientFundsError, db)
         | Some selection \<Rightarrow>
             (let fee = RequiredFee P feeBase selection;
                  change = TotalAmount coins selection - (unat amount + fee);
                  slateId = unat rnd;
                  slate = \<lparr>m_slateId = slateId, m_phase = CREATED, m_amount = unat amount,
                           m_fee = fee,
                           m_inputs = map (\<lambda>i. unat (GetAmount (GetOutputData (coins ! i)))) selection,
                           m_outputs_so_far = [change],
                           m_participants = [CreateParticipantData P masterSeed rnd slateId messageOpt]\<rparr>
              in (Inr slate,
                  db\<lparr>m_outputs := (m_outputs db)(GetUsername wallet := LockCoins coins selection)\<rparr>)))"

text \<open>
  Modelled from the spec: \<^verbatim>\<open>SlateBuilder::AddReceiverData\<close> is not among the sources. It
  accepts a slate in phase CREATED whose skeleton is consistent with
  the stated amount (the inputs pay for the outputs so far, the amount and the fee; a fee
  is a natural number, so never negative) and whose identifier this wallet has not seen.
  It then adds the receiver's output and contribution and advances the slate to RECEIVED.
  Any other slate is rejected: the result is \<open>False\<close>, with the slate and the storage as
  they were. The slate is passed by reference in the source, so the model returns it. A
  value of type \<^typ>\<open>Slate\<close> is structurally well formed.
\<close>

definition AddReceiverData ::
  "Primitives \<Rightarrow> CBigInteger32 \<Rightarrow> WalletDB \<Rightarrow> Wallet \<Rightarrow> CBigInteger32 \<Rightarrow> Slate \<Rightarrow> string option
     \<Rightarrow> (bool \<times> Slate) \<times> WalletDB" where
  "AddReceiverData P rnd db wallet masterSeed slate messageOpt =
     (if m_phase slate \<noteq> CREATED then ((False, slate), db)
      else if sum_list (m_inputs slate)
                \<noteq> sum_list (m_outputs_so_far slate) + m_amount slate + m_fee slate
      then ((False, slate), db)
      else if m_slateId slate \<in> set (m_seenSlates db (GetUsername wallet))
      then ((False, slate), db)
      else ((True,
             slate\<lparr>m_phase := RECEIVED,
                   m_outputs_so_far := m_outputs_so_far slate @ [m_amount slate],
                   m_participants := m_participants slate
                     @ [CreateParticipantData P masterSeed rnd (m_slateId slate) messageOpt]\<rparr>),
            db\<lparr>m_seenSlates := (m_seenSlates db)
                 (GetUsername wallet := m_slateId slate # m_seenSlates db (GetUsername wallet))\<rparr>))"

text \<open>
  Modelled from the spec: the balance check of a transaction, whose code is not among the
  sources: the input amounts sum to the output amounts plus the fee.
\<close>

definition Balances :: "Transaction \<Rightarrow> bool" where
  "Balances tx = (sum_list (m_txInputs tx) = sum_list (m_txOutputs tx) + m_txFee tx)"

text \<open>
  Modelled from the spec: \<^verbatim>\<open>SlateBuilder::Finalize\<close> is not among the sources. It requires
  phase RECEIVED, verifies both partial signatures, aggregates them into the kernel
  signature, assembles the transaction (inputs, all outputs, fee, kernel) and verifies
  that it balances before returning it. Every failure is an \<^verbatim>\<open>InvalidSlateError\<close>.
\<close>

definition SlateBuilder_Finalize ::
  "Primitives \<Rightarrow> WalletDB \<Rightarrow> Wallet \<Rightarrow> CBigInteger32 \<Rightarrow> Slate \<Rightarrow> WalletError + Transaction" where
  "SlateBuilder_Finalize P db wallet masterSeed slate =
     (if m_phase slate \<noteq> RECEIVED then Inl InvalidSlateError
      else case m_participants slate of
             [sender, receiver] \<Rightarrow>
               (if VerifyPartialSignature P (m_slateId slate) sender
                   \<and> VerifyPartialSignature P (m_slateId slate) receiver
                then case AggregateSignatures P [sender, receiver] of
                       None \<Rightarrow> Inl InvalidSlateError
                     | Some signature \<Rightarrow>
                         (let tx = \<lparr>m_txInputs = m_inputs slate,
                                    m_txOutputs = m_outputs_so_far slate,
                                    m_txFee = m_fee slate,
                                    m_kernelSignature = signature\<rparr>
                          in if Balances tx then Inr tx else Inl InvalidSlateError)
                else Inl InvalidSlateError)
           | _ \<Rightarrow> Inl InvalidSlateError)"


section \<open>The facade: \<^verbatim>\<open>WalletManager\<close>\<close>

text \<open>
  The members of \<^verbatim>\<open>WalletManager\<close> that its operations use (\<^verbatim>\<open>m_config\<close> is read by
  none of them). \<^verbatim>\<open>WalletAPI::StartWalletManager\<close> opens the storage and constructs the
  manager with a session registry of its own, which binds no token yet.
\<close>

record WalletManager =
  m_nodeClient :: NodeClient
  m_pWalletDB :: WalletDB
  m_sessionManager :: SessionManager

definition StartWalletManager :: "NodeClient \<Rightarrow> WalletDB \<Rightarrow> WalletManager" where
  "StartWalletManager nodeClient pWalletDB =
     \<lparr>m_nodeClient = nodeClient, m_pWalletDB = pWalletDB,
      m_sessionManager = \<lparr>m_sessionsById = Map.empty, m_nextSessionId = 0\<rparr>\<rparr>"

text \<open>
  \<^verbatim>\<open>WalletManager::InitializeNewWallet\<close> (lines 20 to 33). \<open>GenerateRandom32\<close> is the value
  that \<^verbatim>\<open>RandomNumberGenerator::GenerateRandom32()\<close> returns in this call. The result is
  the \<^verbatim>\<open>std::optional\<close> of the source, with the manager after the call.
\<close>

definition InitializeNewWallet ::
  "Primitives \<Rightarrow> CBigInteger32 \<Rightarrow> WalletManager \<Rightarrow> string \<Rightarrow> SecureString
     \<Rightarrow> (SecureString \<times> SessionToken) option \<times> WalletManager" where
  "InitializeNewWallet P GenerateRandom32 this username password =
     (let walletSeed = GenerateRandom32;
          encryptedSeed = EncryptWalletSeed P walletSeed password
      in case CreateWallet (m_pWalletDB this) username encryptedSeed of
           (created, db') \<Rightarrow>
             if created
             then (let walletWords = CreateMnemonic P walletSeed (Some password)
                   in case SessionManager_Login_seed (m_sessionManager this) username walletSeed of
                        (token, sm') \<Rightarrow>
                          (Some (walletWords, token),
                           this\<lparr>m_pWalletDB := db', m_sessionManager := sm'\<rparr>))
             else (None, this\<lparr>m_pWalletDB := db'\<rparr>))"

text \<open>\<^verbatim>\<open>WalletManager::Login\<close> and \<^verbatim>\<open>WalletManager::Logout\<close> (lines 35 to 43) delegate.\<close>

definition Login ::
  "Primitives \<Rightarrow> WalletManager \<Rightarrow> string \<Rightarrow> SecureString \<Rightarrow> SessionToken option \<times> WalletManager" where
  "Login P this username password =
     (case SessionManager_Login P (m_pWalletDB this) (m_sessionManager this) username password of
        (token, sm') \<Rightarrow> (token, this\<lparr>m_sessionManager := sm'\<rparr>))"

definition Logout :: "WalletManager \<Rightarrow> SessionToken \<Rightarrow> WalletManager" where
  "Logout this token = this\<lparr>m_sessionManager := SessionManager_Logout (m_sessionManager this) token\<rparr>"

text \<open>
  \<^verbatim>\<open>WalletManager::GetWalletSummary\<close> (lines 45 to 73): the chain height is read first,
  the four counters start at 0, then the wallet and the seed of the token are resolved
  (either call may throw), the coins are summed up and the summary is constructed.
\<close>

definition GetWalletSummary ::
  "WalletManager \<Rightarrow> SessionToken \<Rightarrow> uint64_t \<Rightarrow> WalletError + WalletSummary" where
  "GetWalletSummary this token minimumConfirmations =
     (let lastConfirmedHeight = GetChainHeight (m_nodeClient this)
      in case GetWallet (m_sessionManager this) token of
           Inl e \<Rightarrow> Inl e
         | Inr wallet \<Rightarrow>
             (case GetSeed (m_sessionManager this) token of
                Inl e \<Rightarrow> Inl e
              | Inr seed \<Rightarrow>
                  (let coins = GetAllAvailableCoins (m_pWalletDB this) wallet seed
                   in case GetWalletSummary_loop coins (0, 0, 0, 0) of
                        (awaitingConfirmation, immature, locked, spendable) \<Rightarrow>
                          Inr \<lparr>m_lastConfirmedHeight = lastConfirmedHeight,
                               m_minimumConfirmations = minimumConfirmations,
                               m_awaitingConfirmation = awaitingConfirmation,
                               m_immature = immature,
                               m_locked = locked,
                               m_spendable = spendable\<rparr>)))"

text \<open>
  \<^verbatim>\<open>WalletManager::Send\<close>, \<^verbatim>\<open>Receive\<close> and \<^verbatim>\<open>Finalize\<close> (lines 75 to 97): each resolves
  the seed, then the wallet, and hands both to the slate builder. The builder works on the
  wallet by reference; the model returns the manager with the storage as the builder left
  it. An exception leaves the manager as it was.
\<close>

definition Send ::
  "Primitives \<Rightarrow> CBigInteger32 \<Rightarrow> WalletManager \<Rightarrow> SessionToken \<Rightarrow> uint64_t \<Rightarrow> uint64_t
     \<Rightarrow> string option \<Rightarrow> ESelectionStrategy \<Rightarrow> (WalletError + Slate) \<times> WalletManager" where
  "Send P rnd this token amount feeBase messageOpt strategy =
     (case GetSeed (m_sessionManager this) token of
        Inl e \<Rightarrow> (Inl e, this)
      | Inr masterSeed \<Rightarrow>
          (case GetWallet (m_sessionManager this) token of
             Inl e \<Rightarrow> (Inl e, this)
           | Inr wallet \<Rightarrow>
               (case BuildSendSlate P rnd (m_pWalletDB this) wallet masterSeed amount feeBase
                       messageOpt strategy of
                  (result, db') \<Rightarrow> (result, this\<lparr>m_pWalletDB := db'\<rparr>))))"

definition Receive ::
  "Primitives \<Rightarrow> CBigInteger32 \<Rightarrow> WalletManager \<Rightarrow> SessionToken \<Rightarrow> Slate \<Rightarrow> string option
     \<Rightarrow> (WalletError + bool \<times> Slate) \<times> WalletManager" where
  "Receive P rnd this token slate messageOpt =
     (case GetSeed (m_sessionManager this) token of
        Inl e \<Rightarrow> (Inl e, this)
      | Inr masterSeed \<Rightarrow>
          (case GetWallet (m_sessionManager this) token of
             Inl e \<Rightarrow> (Inl e, this)
           | Inr wallet \<Rightarrow>
               (case AddReceiverData P rnd (m_pWalletDB this) wallet masterSeed slate messageOpt of
                  (result, db') \<Rightarrow> (Inr result, this\<lparr>m_pWalletDB := db'\<rparr>))))"

definition Finalize ::
  "Primitives \<Rightarrow> WalletManager \<Rightarrow> SessionToken \<Rightarrow> Slate \<Rightarrow> WalletError + Transaction" where
  "Finalize P this token slate =
     (case GetSeed (m_sessionManager this) token of
        Inl e \<Rightarrow> Inl e
      | Inr masterSeed \<Rightarrow>
          (case GetWallet (m_sessionManager this) token of
             Inl e \<Rightarrow> Inl e
           | Inr wallet \<Rightarrow> SlateBuilder_Finalize P (m_pWalletDB this) wallet masterSeed slate))"

subsection \<open>The order of the calls\<close>

text \<open>
  The calls that an operation of the facade makes on its collaborators, in the order of
  the statements of its body, up to and including the first one that throws.
\<close>

datatype Call =
  CallGetChainHeight | CallGetSeed | CallGetWallet | CallGetAllAvailableCoins
  | CallBuildSendSlate | CallAddReceiverData | CallFinalize

definition GetWalletSummary_calls :: "WalletManager \<Rightarrow> SessionToken \<Rightarrow> Call list" where
  "GetWalletSummary_calls this token =
     CallGetChainHeight # CallGetWallet #
       (case GetWallet (m_sessionManager this) token of
          Inl e \<Rightarrow> []
        | Inr wallet \<Rightarrow>
            CallGetSeed #
              (case GetSeed (m_sessionManager this) token of
                 Inl e \<Rightarrow> []
               | Inr seed \<Rightarrow> [CallGetAllAvailableCoins]))"

definition SlateOperation_calls :: "Call \<Rightarrow> WalletManager \<Rightarrow> SessionToken \<Rightarrow> Call list" where
  "SlateOperation_calls builderCall this token =
     CallGetSeed #
       (case GetSeed (m_sessionManager this) token of
          Inl e \<Rightarrow> []
        | Inr masterSeed \<Rightarrow>
            CallGetWallet #
              (case GetWallet (m_sessionManager this) token of
                 Inl e \<Rightarrow> []
               | Inr wallet \<Rightarrow> [builderCall]))"

definition Send_calls :: "WalletManager \<Rightarrow> SessionToken \<Rightarrow> Call list" where
  "Send_calls = SlateOperation_calls CallBuildSendSlate"

definition Receive_calls :: "WalletManager \<Rightarrow> SessionToken \<Rightarrow> Call list" where
  "Receive_calls = SlateOperation_calls CallAddReceiverData"

definition Finalize_calls :: "WalletManager \<Rightarrow> SessionToken \<Rightarrow> Call list" where
  "Finalize_calls = SlateOperation_calls CallFinalize"

subsection \<open>Sequences of requests\<close>

text \<open>
  A request to the facade, with the random value it draws where it draws one, and the
  manager after serving it (the reply goes to the caller).
\<close>

datatype Request =
  ReqInitializeNewWallet CBigInteger32 string SecureString
  | ReqLogin string SecureString
  | ReqLogout SessionToken
  | ReqGetWalletSummary SessionToken uint64_t
  | ReqSend CBigInteger32 SessionToken uint64_t uint64_t "string option" ESelectionStrategy
  | ReqReceive CBigInteger32 SessionToken Slate "string option"
  | ReqFinalize SessionToken Slate

fun Serve :: "Primitives \<Rightarrow> WalletManager \<Rightarrow> Request \<Rightarrow> WalletManager" where
  "Serve P this (ReqInitializeNewWallet rnd username password) =
     snd (InitializeNewWallet P rnd this username password)"
| "Serve P this (ReqLogin username password) = snd (Login P this username password)"
| "Serve P this (ReqLogout token) = Logout this token"
| "Serve P this (ReqGetWalletSummary token minimumConfirmations) = this"
| "Serve P this (ReqSend rnd token amount feeBase messageOpt strategy) =
     snd (Send P rnd this token amount feeBase messageOpt strategy)"
| "Serve P this (ReqReceive rnd token slate messageOpt) =
     snd (Receive P rnd this token slate messageOpt)"
| "Serve P this (ReqFinalize token slate) = this"

definition ServeAll :: "Primitives \<Rightarrow> WalletManager \<Rightarrow> Request list \<Rightarrow> WalletManager" where
  "ServeAll P this requests = foldl (Serve P) this requests"


section \<open>Invariants of the session registry\<close>

text \<open>
  Used in the proofs about sequences of requests: every bound token has been issued
  (it is below the counter), and a token that has been issued is bound no more.
\<close>

definition BoundTokensIssued :: "SessionManager \<Rightarrow> bool" where
  "BoundTokensIssued sm =
     (\<forall>token. m_sessionsById sm token \<noteq> None \<longrightarrow> token < m_nextSessionId sm)"

definition LoggedOut :: "SessionToken \<Rightarrow> SessionManager \<Rightarrow> bool" where
  "LoggedOut token sm =
     (BoundTokensIssued sm \<and> token < m_nextSessionId sm \<and> m_sessionsById sm token = None)"

section \<open>Example inputs\<close>

text \<open>
  Concrete inputs on which the theorems below are instantiated: primitives with a flat
  fee, and a manager that holds one wallet, \<open>alice\<close>'s, logged in under token 0.
\<close>

definition ExamplePrimitives :: Primitives where
  "ExamplePrimitives =
     \<lparr>EncryptWalletSeed = (\<lambda>seed password. [ucast seed, of_nat (length password)]),
      DecryptWalletSeed = (\<lambda>encryptedSeed password.
         case encryptedSeed of
           [low, n] \<Rightarrow> if n = of_nat (length password) then Some (ucast low) else None
         | _ \<Rightarrow> None),
      CreateMnemonic = (\<lambda>seed passwordOpt. ''abandon ability able''),
      CalculateFee = (\<lambda>feeBase numInputs numOutputs numKernels. unat feeBase),
      CreateParticipantData = (\<lambda>seed rnd slateId messageOpt.
         \<lparr>m_publicBlindExcess = unat seed, m_publicNonce = unat rnd,
          m_partialSignature = slateId, m_message = messageOpt\<rparr>),
      VerifyPartialSignature = (\<lambda>slateId participant. m_partialSignature participant = slateId),
      AggregateSignatures = (\<lambda>participants. Some (sum_list (map m_partialSignature participants)))\<rparr>"

definition Coin :: "uint64_t \<Rightarrow> EOutputStatus \<Rightarrow> WalletCoin" where
  "Coin amount status = \<lparr>GetOutputData = \<lparr>GetAmount = amount, GetStatus = status\<rparr>\<rparr>"

definition ExampleDB :: "WalletCoin list \<Rightarrow> WalletDB" where
  "ExampleDB coins =
     \<lparr>m_seeds = [''alice'' \<mapsto> [7, 2]],
      m_outputs = (\<lambda>username. [])(''alice'' := coins),
      m_seenSlates = (\<lambda>username. [])\<rparr>"

definition ExampleManager :: "uint64_t \<Rightarrow> WalletCoin list \<Rightarrow> WalletManager" where
  "ExampleManager height coins =
     \<lparr>m_nodeClient = \<lparr>GetChainHeight = height\<rparr>,
      m_pWalletDB = ExampleDB coins,
      m_sessionManager =
        \<lparr>m_sessionsById = [0 \<mapsto> \<lparr>m_seed = 7, m_wallet = Wallet ''alice''\<rparr>],
         m_nextSessionId = 1\<rparr>\<rparr>"

definition ExampleSlate :: "ESlatePhase \<Rightarrow> Slate" where
  "ExampleSlate phase =
     \<lparr>m_slateId = 9, m_phase = phase, m_amount = 25, m_fee = 1, m_inputs = [30],
      m_outputs_so_far = (if phase = CREATED then [4] else [4, 25]),
      m_participants =
        (if phase = CREATED
         then [CreateParticipantData ExamplePrimitives 7 9 9 None]
         else [CreateParticipantData ExamplePrimitives 7 9 9 None,
               CreateParticipantData ExamplePrimitives 7 3 9 None])\<rparr>"


section \<open>The balance summary\<close>

text \<open>
  The loop adds the amount of every LOCKED coin to \<open>locked\<close> and of every UNSPENT coin to
  \<open>spendable\<close>, and leaves the other two counters alone.
\<close>

lemma GetWalletSummary_loop_sums:
  "GetWalletSummary_loop coins (a, i, l, s) =
     (a, i,
      l + sum_list (map (\<lambda>c. GetAmount (GetOutputData c))
            (filter (\<lambda>c. GetStatus (GetOutputData c) = LOCKED) coins)),
      s + sum_list (map (\<lambda>c. GetAmount (GetOutputData c))
            (filter (\<lambda>c. GetStatus (GetOutputData c) = UNSPENT) coins)))"
  by (induction coins arbitrary: l s) (simp_all add: Let_def add.assoc)

lemma GetWalletSummary_Inr:
  assumes "GetWalletSummary this token minimumConfirmations = Inr summary"
  obtains session where "m_sessionsById (m_sessionManager this) token = Some session"
    and "summary =
      (case GetWalletSummary_loop (m_outputs (m_pWalletDB this) (GetUsername (m_wallet session))) (0, 0, 0, 0) of
         (a, i, l, s) \<Rightarrow>
           \<lparr>m_lastConfirmedHeight = GetChainHeight (m_nodeClient this),
            m_minimumConfirmations = minimumConfirmations,
            m_awaitingConfirmation = a, m_immature = i, m_locked = l, m_spendable = s\<rparr>)"
  using assms
  by (auto simp: GetWalletSummary_def GetWallet_def GetSeed_def GetAllAvailableCoins_def Let_def
      split: option.splits prod.splits)

lemma GetWalletSummary_valid:
  assumes "m_sessionsById (m_sessionManager this) token = Some session"
  shows "GetWalletSummary this token minimumConfirmations =
     (case GetWalletSummary_loop (m_outputs (m_pWalletDB this) (GetUsername (m_wallet session))) (0, 0, 0, 0) of
         (a, i, l, s) \<Rightarrow>
           Inr \<lparr>m_lastConfirmedHeight = GetChainHeight (m_nodeClient this),
            m_minimumConfirmations = minimumConfirmations,
            m_awaitingConfirmation = a, m_immature = i, m_locked = l, m_spendable = s\<rparr>)"
  using assms
  by (simp add: GetWalletSummary_def GetWallet_def GetSeed_def GetAllAvailableCoins_def Let_def
      split: prod.splits)

text \<open>
  Claim C2: GetWalletSummary classifies each owned output: an UNSPENT output with at least
  \<open>minimumConfirmations\<close> confirmations counts as spendable, an UNSPENT output with fewer
  as awaitingConfirmation, an immature coinbase output as immature, a LOCKED output as
  locked. The code does not determine confirmations (the comment of line 67 says so): at
  chain height 0, with 10 confirmations required, no output can have enough confirmations,
  and still an UNSPENT output of amount 5 is counted as spendable and nothing as awaiting
  confirmation.
\<close>

theorem GetWalletSummary_unconfirmed_counted_spendable:
  "GetWalletSummary (ExampleManager 0 [Coin 5 UNSPENT]) 0 10 =
     Inr \<lparr>m_lastConfirmedHeight = 0, m_minimumConfirmations = 10,
          m_awaitingConfirmation = 0, m_immature = 0, m_locked = 0, m_spendable = 5\<rparr>"
  by (simp add: GetWalletSummary_def GetWallet_def GetSeed_def GetAllAvailableCoins_def
      ExampleManager_def ExampleDB_def Coin_def Let_def)

lemma GetWalletSummary_loop_append:
  "GetWalletSummary_loop (coins @ [coin]) (a, i, l, s) =
     GetWalletSummary_loop [coin] (GetWalletSummary_loop coins (a, i, l, s))"
  by (induction coins arbitrary: l s) (simp_all add: Let_def)

text \<open>
  Claim C3, as amended: the four buckets are mutually exclusive but not exhaustive. When
  one more output is added to the wallet, the summary changes in at most one bucket, which
  grows by the output's amount (a sum of \<^verbatim>\<open>uint64_t\<close>, which wraps). A LOCKED or UNSPENT
  output is counted in exactly one bucket, and a SPENT output is counted in none.
\<close>

theorem GetWalletSummary_one_bucket:
  assumes "GetWalletSummary this token minimumConfirmations = Inr before"
      and "GetWallet (m_sessionManager this) token = Inr wallet"
      and "extended = this\<lparr>m_pWalletDB := (m_pWalletDB this)\<lparr>m_outputs :=
             (m_outputs (m_pWalletDB this))
               (GetUsername wallet := m_outputs (m_pWalletDB this) (GetUsername wallet) @ [coin])\<rparr>\<rparr>"
      and "amount = GetAmount (GetOutputData coin)"
      and "status = GetStatus (GetOutputData coin)"
  shows "\<exists>after. GetWalletSummary extended token minimumConfirmations = Inr after
       \<and> (after = before
          \<or> after = before\<lparr>m_awaitingConfirmation := m_awaitingConfirmation before + amount\<rparr>
          \<or> after = before\<lparr>m_immature := m_immature before + amount\<rparr>
          \<or> after = before\<lparr>m_locked := m_locked before + amount\<rparr>
          \<or> after = before\<lparr>m_spendable := m_spendable before + amount\<rparr>)
       \<and> (status = LOCKED \<or> status = UNSPENT \<longrightarrow>
            after = before\<lparr>m_awaitingConfirmation := m_awaitingConfirmation before + amount\<rparr>
          \<or> after = before\<lparr>m_immature := m_immature before + amount\<rparr>
          \<or> after = before\<lparr>m_locked := m_locked before + amount\<rparr>
          \<or> after = before\<lparr>m_spendable := m_spendable before + amount\<rparr>)
       \<and> (status = SPENT \<longrightarrow> after = before)"
proof -
  from assms(1) obtain session where
    s: "m_sessionsById (m_sessionManager this) token = Some session"
    by (rule GetWalletSummary_Inr)
  with assms(2) have w: "wallet = m_wallet session"
    by (simp add: GetWallet_def)
  let ?coins = "m_outputs (m_pWalletDB this) (GetUsername (m_wallet session))"
  obtain a i l sp where loop: "GetWalletSummary_loop ?coins (0, 0, 0, 0) = (a, i, l, sp)"
    by (cases "GetWalletSummary_loop ?coins (0, 0, 0, 0)") auto
  have before: "before = \<lparr>m_lastConfirmedHeight = GetChainHeight (m_nodeClient this),
            m_minimumConfirmations = minimumConfirmations,
            m_awaitingConfirmation = a, m_immature = i, m_locked = l, m_spendable = sp\<rparr>"
    using assms(1) s loop by (simp add: GetWalletSummary_valid)
  have s': "m_sessionsById (m_sessionManager extended) token = Some session"
    using s by (simp add: assms(3))
  have coins': "m_outputs (m_pWalletDB extended) (GetUsername (m_wallet session)) = ?coins @ [coin]"
    by (simp add: assms(3) w)
  have node: "GetChainHeight (m_nodeClient extended) = GetChainHeight (m_nodeClient this)"
    by (simp add: assms(3))
  show ?thesis
    unfolding GetWalletSummary_valid [OF s'] coins' node GetWalletSummary_loop_append loop before
    by (simp add: Let_def assms(4,5))
qed

text \<open>
  The theorem of claim C3 on a wallet with a SPENT and a LOCKED coin, to which a LOCKED
  and a SPENT coin are added in turn.
\<close>

theorem GetWalletSummary_one_bucket_witness:
  "GetWalletSummary (ExampleManager 100 [Coin 5 SPENT, Coin 3 LOCKED]) 0 1
     = Inr \<lparr>m_lastConfirmedHeight = 100, m_minimumConfirmations = 1,
            m_awaitingConfirmation = 0, m_immature = 0, m_locked = 3, m_spendable = 0\<rparr>
   \<and> GetWalletSummary (ExampleManager 100 [Coin 5 SPENT, Coin 3 LOCKED, Coin 2 LOCKED]) 0 1
     = Inr \<lparr>m_lastConfirmedHeight = 100, m_minimumConfirmations = 1,
            m_awaitingConfirmation = 0, m_immature = 0, m_locked = 3 + 2, m_spendable = 0\<rparr>
   \<and> GetWalletSummary (ExampleManager 100 [Coin 5 SPENT, Coin 3 LOCKED, Coin 7 SPENT]) 0 1
     = Inr \<lparr>m_lastConfirmedHeight = 100, m_minimumConfirmations = 1,
            m_awaitingConfirmation = 0, m_immature = 0, m_locked = 3, m_spendable = 0\<rparr>"
proof -
  let ?wm = "ExampleManager 100 [Coin 5 SPENT, Coin 3 LOCKED]"
  let ?before = "\<lparr>m_lastConfirmedHeight = 100, m_minimumConfirmations = 1,
            m_awaitingConfirmation = 0, m_immature = 0, m_locked = 3, m_spendable = (0::uint64_t)\<rparr>"
  have 1: "GetWalletSummary ?wm 0 1 = Inr ?before"
    by (simp add: GetWalletSummary_def GetWallet_def GetSeed_def GetAllAvailableCoins_def
      ExampleManager_def ExampleDB_def Coin_def Let_def)
  have 2: "GetWallet (m_sessionManager ?wm) 0 = Inr (Wallet ''alice'')"
    by (simp add: GetWallet_def ExampleManager_def)
  have e: "\<And>coin. ExampleManager 100 [Coin 5 SPENT, Coin 3 LOCKED, coin]
      = ?wm\<lparr>m_pWalletDB := (m_pWalletDB ?wm)\<lparr>m_outputs :=
             (m_outputs (m_pWalletDB ?wm))
               (GetUsername (Wallet ''alice'') :=
                  m_outputs (m_pWalletDB ?wm) (GetUsername (Wallet ''alice'')) @ [coin])\<rparr>\<rparr>"
    by (simp add: ExampleManager_def ExampleDB_def)
  from GetWalletSummary_one_bucket [OF 1 2 e refl refl, of "Coin 7 SPENT"]
  have 3: "GetWalletSummary (ExampleManager 100 [Coin 5 SPENT, Coin 3 LOCKED, Coin 7 SPENT]) 0 1
             = Inr ?before"
    by (auto simp: Coin_def)
  have 4: "GetWalletSummary (ExampleManager 100 [Coin 5 SPENT, Coin 3 LOCKED, Coin 2 LOCKED]) 0 1
     = Inr \<lparr>m_lastConfirmedHeight = 100, m_minimumConfirmations = 1,
            m_awaitingConfirmation = 0, m_immature = 0, m_locked = 3 + 2, m_spendable = 0\<rparr>"
    by (simp add: GetWalletSummary_def GetWallet_def GetSeed_def GetAllAvailableCoins_def
      ExampleManager_def ExampleDB_def Coin_def Let_def)
  from 1 3 4 show ?thesis by simp
qed

text \<open>
  Against claim C3 as stated (every known output is counted in exactly one bucket): a
  wallet whose only output is SPENT, of amount 5, has four empty buckets.
\<close>

theorem GetWalletSummary_spent_uncounted:
  "GetWalletSummary (ExampleManager 100 [Coin 5 SPENT]) 0 1 =
     Inr \<lparr>m_lastConfirmedHeight = 100, m_minimumConfirmations = 1,
          m_awaitingConfirmation = 0, m_immature = 0, m_locked = 0, m_spendable = 0\<rparr>"
  by (simp add: GetWalletSummary_def GetWallet_def GetSeed_def GetAllAvailableCoins_def
      ExampleManager_def ExampleDB_def Coin_def Let_def)

lemma GetWalletSummary_loop_filter:
  "GetWalletSummary_loop
     (filter (\<lambda>c. GetStatus (GetOutputData c) = UNSPENT \<or> GetStatus (GetOutputData c) = LOCKED) coins)
     (a, i, l, s) = GetWalletSummary_loop coins (a, i, l, s)"
  by (induction coins arbitrary: l s) (simp_all add: Let_def)

text \<open>
  Claim C9: a summary returned by GetWalletSummary has \<open>awaitingConfirmation = 0\<close> and
  \<open>immature = 0\<close>; its height is the chain height the node reports and its confirmation
  field is the \<open>minimumConfirmations\<close> argument; and the coins whose status is neither
  UNSPENT nor LOCKED contribute to no bucket: the summary is the same once they are
  removed from the storage.
\<close>

theorem GetWalletSummary_fields:
  assumes "GetWalletSummary this token minimumConfirmations = Inr summary"
  shows "m_awaitingConfirmation summary = 0
       \<and> m_immature summary = 0
       \<and> m_lastConfirmedHeight summary = GetChainHeight (m_nodeClient this)
       \<and> m_minimumConfirmations summary = minimumConfirmations
       \<and> GetWalletSummary
            (this\<lparr>m_pWalletDB := (m_pWalletDB this)\<lparr>m_outputs := \<lambda>username.
               filter (\<lambda>c. GetStatus (GetOutputData c) = UNSPENT
                          \<or> GetStatus (GetOutputData c) = LOCKED)
                 (m_outputs (m_pWalletDB this) username)\<rparr>\<rparr>)
            token minimumConfirmations = Inr summary"
proof -
  from assms obtain session where
    s: "m_sessionsById (m_sessionManager this) token = Some session"
    by (rule GetWalletSummary_Inr)
  let ?coins = "m_outputs (m_pWalletDB this) (GetUsername (m_wallet session))"
  obtain l sp where loop: "GetWalletSummary_loop ?coins (0, 0, 0, 0) = (0, 0, l, sp)"
    by (simp add: GetWalletSummary_loop_sums)
  have summary: "summary = \<lparr>m_lastConfirmedHeight = GetChainHeight (m_nodeClient this),
            m_minimumConfirmations = minimumConfirmations,
            m_awaitingConfirmation = 0, m_immature = 0, m_locked = l, m_spendable = sp\<rparr>"
    using assms s loop by (simp add: GetWalletSummary_valid)
  have "GetWalletSummary
            (this\<lparr>m_pWalletDB := (m_pWalletDB this)\<lparr>m_outputs := \<lambda>username.
               filter (\<lambda>c. GetStatus (GetOutputData c) = UNSPENT
                          \<or> GetStatus (GetOutputData c) = LOCKED)
                 (m_outputs (m_pWalletDB this) username)\<rparr>\<rparr>)
            token minimumConfirmations = Inr summary"
    using s loop summary
    by (simp add: GetWalletSummary_valid [where session = session] GetWalletSummary_loop_filter)
  with summary show ?thesis by simp
qed

text \<open>The theorem of claim C9 on a wallet with a SPENT and an IMMATURE coin.\<close>

theorem GetWalletSummary_fields_witness:
  "GetWalletSummary (ExampleManager 100 [Coin 5 SPENT, Coin 3 LOCKED, Coin 4 UNSPENT, Coin 2 IMMATURE]) 0 6
     = Inr \<lparr>m_lastConfirmedHeight = 100, m_minimumConfirmations = 6,
          m_awaitingConfirmation = 0, m_immature = 0, m_locked = 3, m_spendable = 4\<rparr>
   \<and> GetWalletSummary (ExampleManager 100 [Coin 3 LOCKED, Coin 4 UNSPENT]) 0 6
     = Inr \<lparr>m_lastConfirmedHeight = 100, m_minimumConfirmations = 6,
          m_awaitingConfirmation = 0, m_immature = 0, m_locked = 3, m_spendable = 4\<rparr>"
proof -
  let ?wm = "ExampleManager 100 [Coin 5 SPENT, Coin 3 LOCKED, Coin 4 UNSPENT, Coin 2 IMMATURE]"
  let ?summary = "\<lparr>m_lastConfirmedHeight = 100, m_minimumConfirmations = 6,
          m_awaitingConfirmation = 0, m_immature = 0, m_locked = 3, m_spendable = (4::uint64_t)\<rparr>"
  have 1: "GetWalletSummary ?wm 0 6 = Inr ?summary"
    by (simp add: GetWalletSummary_def GetWallet_def GetSeed_def GetAllAvailableCoins_def
      ExampleManager_def ExampleDB_def Coin_def Let_def)
  have 2: "?wm\<lparr>m_pWalletDB := (m_pWalletDB ?wm)\<lparr>m_outputs := \<lambda>username.
               filter (\<lambda>c. GetStatus (GetOutputData c) = UNSPENT
                          \<or> GetStatus (GetOutputData c) = LOCKED)
                 (m_outputs (m_pWalletDB ?wm) username)\<rparr>\<rparr>
           = ExampleManager 100 [Coin 3 LOCKED, Coin 4 UNSPENT]"
    by (auto simp: ExampleManager_def ExampleDB_def Coin_def fun_eq_iff)
  from GetWalletSummary_fields [OF 1] 1 2 show ?thesis by simp
qed

section \<open>Unknown tokens\<close>

text \<open>
  Claim C10, as amended: with a token that the session registry rejects (unknown or
  logged out, so that \<^verbatim>\<open>GetSeed\<close> and \<^verbatim>\<open>GetWallet\<close> throw InvalidSessionError), Send,
  Receive and Finalize resolve the token before any other work: their only call is the
  \<^verbatim>\<open>GetSeed\<close> that throws. GetWalletSummary first reads the chain height from the node and
  then resolves the token with \<^verbatim>\<open>GetWallet\<close>, which throws. All four fail with
  InvalidSessionError, none reaches the slate builder, and the manager is left as it was.
\<close>

theorem unknown_token_rejected:
  assumes "GetSeed (m_sessionManager this) token = Inl InvalidSessionError"
      and "GetWallet (m_sessionManager this) token = Inl InvalidSessionError"
  shows "Send P rnd this token amount feeBase messageOpt strategy = (Inl InvalidSessionError, this)
       \<and> Send_calls this token = [CallGetSeed]
       \<and> Receive P rnd this token slate messageOpt = (Inl InvalidSessionError, this)
       \<and> Receive_calls this token = [CallGetSeed]
       \<and> Finalize P this token slate = Inl InvalidSessionError
       \<and> Finalize_calls this token = [CallGetSeed]
       \<and> GetWalletSummary this token minimumConfirmations = Inl InvalidSessionError
       \<and> GetWalletSummary_calls this token = [CallGetChainHeight, CallGetWallet]"
  using assms
  by (simp add: Send_def Receive_def Finalize_def GetWalletSummary_def Let_def
      Send_calls_def Receive_calls_def Finalize_calls_def SlateOperation_calls_def
      GetWalletSummary_calls_def)

text \<open>The theorem of claim C10 on token 5, which the example manager never issued.\<close>

theorem unknown_token_rejected_witness:
  "Send ExamplePrimitives 9 (ExampleManager 100 [Coin 30 UNSPENT]) 5 25 1 None STRATEGY_ALL
     = (Inl InvalidSessionError, ExampleManager 100 [Coin 30 UNSPENT])
   \<and> Send_calls (ExampleManager 100 [Coin 30 UNSPENT]) 5 = [CallGetSeed]
   \<and> Receive ExamplePrimitives 9 (ExampleManager 100 [Coin 30 UNSPENT]) 5 (ExampleSlate RECEIVED) None
     = (Inl InvalidSessionError, ExampleManager 100 [Coin 30 UNSPENT])
   \<and> Receive_calls (ExampleManager 100 [Coin 30 UNSPENT]) 5 = [CallGetSeed]
   \<and> Finalize ExamplePrimitives (ExampleManager 100 [Coin 30 UNSPENT]) 5 (ExampleSlate RECEIVED)
     = Inl InvalidSessionError
   \<and> Finalize_calls (ExampleManager 100 [Coin 30 UNSPENT]) 5 = [CallGetSeed]
   \<and> GetWalletSummary (ExampleManager 100 [Coin 30 UNSPENT]) 5 1 = Inl InvalidSessionError
   \<and> GetWalletSummary_calls (ExampleManager 100 [Coin 30 UNSPENT]) 5
     = [CallGetChainHeight, CallGetWallet]"
proof -
  have s: "GetSeed (m_sessionManager (ExampleManager 100 [Coin 30 UNSPENT])) 5
             = Inl InvalidSessionError"
    by (simp add: GetSeed_def ExampleManager_def)
  have w: "GetWallet (m_sessionManager (ExampleManager 100 [Coin 30 UNSPENT])) 5
             = Inl InvalidSessionError"
    by (simp add: GetWallet_def ExampleManager_def)
  from unknown_token_rejected [OF s w] show ?thesis .
qed

text \<open>
  Against claim C10 as stated (the token is resolved before any other work): the first
  call of GetWalletSummary is the node's \<^verbatim>\<open>GetChainHeight\<close> (line 47), before \<^verbatim>\<open>GetWallet\<close>
  (line 54).
\<close>

theorem GetWalletSummary_reads_height_first:
  "GetWalletSummary_calls (ExampleManager 100 []) 5 = [CallGetChainHeight, CallGetWallet]"
  by (simp add: GetWalletSummary_calls_def GetWallet_def ExampleManager_def)


section \<open>Creating a wallet\<close>

text \<open>
  Claim C7: InitializeNewWallet returns None exactly when the storage's CreateWallet call
  reports failure, which is exactly when the username collides with an existing wallet;
  otherwise it returns the mnemonic words of the freshly drawn seed together with a live
  session token: one that \<^verbatim>\<open>GetSeed\<close> resolves to that seed and \<^verbatim>\<open>GetWallet\<close> to the new
  user's wallet.
\<close>

theorem InitializeNewWallet_result:
  assumes "InitializeNewWallet P GenerateRandom32 this username password = (result, this')"
  shows "(result = None) =
           (\<not> fst (CreateWallet (m_pWalletDB this) username
                     (EncryptWalletSeed P GenerateRandom32 password)))
       \<and> (result = None) = (m_seeds (m_pWalletDB this) username \<noteq> None)
       \<and> (result \<noteq> None \<longrightarrow>
            (\<exists>token. result = Some (CreateMnemonic P GenerateRandom32 (Some password), token)
               \<and> GetSeed (m_sessionManager this') token = Inr GenerateRandom32
               \<and> GetWallet (m_sessionManager this') token = Inr (Wallet username)))"
  using assms
  by (auto simp: InitializeNewWallet_def CreateWallet_def SessionManager_Login_seed_def
      GetSeed_def GetWallet_def Let_def split: option.splits if_splits)

text \<open>The theorem of claim C7 on a colliding username and on a new one.\<close>

theorem InitializeNewWallet_result_witness:
  "fst (InitializeNewWallet ExamplePrimitives 11 (ExampleManager 100 []) ''alice'' ''pw'') = None
   \<and> m_seeds (m_pWalletDB (ExampleManager 100 [])) ''alice'' = Some [7, 2]
   \<and> fst (InitializeNewWallet ExamplePrimitives 11 (ExampleManager 100 []) ''bob'' ''pw'')
       = Some (''abandon ability able'', 1)
   \<and> m_seeds (m_pWalletDB (ExampleManager 100 [])) ''bob'' = None
   \<and> GetSeed (m_sessionManager
         (snd (InitializeNewWallet ExamplePrimitives 11 (ExampleManager 100 []) ''bob'' ''pw''))) 1
       = Inr 11"
proof -
  have a: "m_seeds (m_pWalletDB (ExampleManager 100 [])) ''alice'' = Some [7, 2]"
    by (simp add: ExampleManager_def ExampleDB_def)
  have b: "m_seeds (m_pWalletDB (ExampleManager 100 [])) ''bob'' = None"
    by (simp add: ExampleManager_def ExampleDB_def)
  have m: "CreateMnemonic ExamplePrimitives 11 (Some ''pw'') = ''abandon ability able''"
    by (simp add: ExamplePrimitives_def)
  from InitializeNewWallet_result
    [of ExamplePrimitives 11 "ExampleManager 100 []" "''alice''" "''pw''"
       "fst (InitializeNewWallet ExamplePrimitives 11 (ExampleManager 100 []) ''alice'' ''pw'')"
       "snd (InitializeNewWallet ExamplePrimitives 11 (ExampleManager 100 []) ''alice'' ''pw'')"]
  have 1: "fst (InitializeNewWallet ExamplePrimitives 11 (ExampleManager 100 []) ''alice'' ''pw'') = None"
    using a by simp
  from InitializeNewWallet_result
    [of ExamplePrimitives 11 "ExampleManager 100 []" "''bob''" "''pw''"
       "fst (InitializeNewWallet ExamplePrimitives 11 (ExampleManager 100 []) ''bob'' ''pw'')"
       "snd (InitializeNewWallet ExamplePrimitives 11 (ExampleManager 100 []) ''bob'' ''pw'')"]
  obtain token where
    2: "fst (InitializeNewWallet ExamplePrimitives 11 (ExampleManager 100 []) ''bob'' ''pw'')
          = Some (''abandon ability able'', token)"
    and 3: "GetSeed (m_sessionManager
         (snd (InitializeNewWallet ExamplePrimitives 11 (ExampleManager 100 []) ''bob'' ''pw''))) token
       = Inr 11"
    using b m by auto
  have "fst (InitializeNewWallet ExamplePrimitives 11 (ExampleManager 100 []) ''bob'' ''pw'')
       = Some (''abandon ability able'', 1)"
    by (simp add: InitializeNewWallet_def CreateWallet_def SessionManager_Login_seed_def
        ExampleManager_def ExampleDB_def ExamplePrimitives_def Let_def)
  with 2 have "token = 1" by simp
  with 1 2 3 a b show ?thesis by simp
qed

section \<open>Sessions after a logout\<close>

lemma LoggedOut_Login_seed:
  "LoggedOut token sm \<Longrightarrow> LoggedOut token (snd (SessionManager_Login_seed sm username seed))"
  by (auto simp: LoggedOut_def BoundTokensIssued_def SessionManager_Login_seed_def Let_def
      less_Suc_eq)

lemma LoggedOut_Login:
  "LoggedOut token sm \<Longrightarrow> LoggedOut token (snd (SessionManager_Login P db sm username password))"
  using LoggedOut_Login_seed [of token sm username]
  by (auto simp: SessionManager_Login_def split: option.splits prod.splits) (metis snd_conv)

lemma LoggedOut_Logout:
  "LoggedOut token sm \<Longrightarrow> LoggedOut token (SessionManager_Logout sm token')"
  by (auto simp: LoggedOut_def BoundTokensIssued_def SessionManager_Logout_def)

lemma Send_sessions:
  "m_sessionManager (snd (Send P rnd this token amount feeBase messageOpt strategy))
     = m_sessionManager this"
  by (simp add: Send_def split: sum.splits prod.splits)

lemma Receive_sessions:
  "m_sessionManager (snd (Receive P rnd this token slate messageOpt)) = m_sessionManager this"
  by (simp add: Receive_def split: sum.splits prod.splits)

lemma InitializeNewWallet_sessions:
  "m_sessionManager (snd (InitializeNewWallet P rnd this username password)) = m_sessionManager this
   \<or> m_sessionManager (snd (InitializeNewWallet P rnd this username password))
        = snd (SessionManager_Login_seed (m_sessionManager this) username rnd)"
  by (simp add: InitializeNewWallet_def Let_def split: prod.splits)

lemma Login_sessions:
  "m_sessionManager (snd (Login P this username password))
     = snd (SessionManager_Login P (m_pWalletDB this) (m_sessionManager this) username password)"
  by (simp add: Login_def split: prod.splits)

lemma LoggedOut_Serve:
  "LoggedOut token (m_sessionManager this) \<Longrightarrow> LoggedOut token (m_sessionManager (Serve P this request))"
proof (cases request)
  case (ReqInitializeNewWallet rnd username password)
  assume "LoggedOut token (m_sessionManager this)"
  with InitializeNewWallet_sessions [of P rnd this username password] ReqInitializeNewWallet
  show ?thesis by (auto simp: LoggedOut_Login_seed)
qed (simp_all add: Login_sessions LoggedOut_Login Logout_def LoggedOut_Logout Send_sessions
       Receive_sessions)

lemma LoggedOut_ServeAll:
  "LoggedOut token (m_sessionManager this) \<Longrightarrow>
     LoggedOut token (m_sessionManager (ServeAll P this requests))"
  unfolding ServeAll_def
  by (induction requests arbitrary: this) (simp_all add: LoggedOut_Serve)

lemma BoundTokensIssued_Login_seed:
  "BoundTokensIssued sm \<Longrightarrow> BoundTokensIssued (snd (SessionManager_Login_seed sm username seed))"
  by (auto simp: BoundTokensIssued_def SessionManager_Login_seed_def Let_def less_Suc_eq)

lemma BoundTokensIssued_Login:
  "BoundTokensIssued sm \<Longrightarrow> BoundTokensIssued (snd (SessionManager_Login P db sm username password))"
  using BoundTokensIssued_Login_seed [of sm username]
  by (auto simp: SessionManager_Login_def split: option.splits prod.splits) (metis snd_conv)

lemma BoundTokensIssued_Logout:
  "BoundTokensIssued sm \<Longrightarrow> BoundTokensIssued (SessionManager_Logout sm token)"
  by (auto simp: BoundTokensIssued_def SessionManager_Logout_def)

lemma BoundTokensIssued_Serve:
  "BoundTokensIssued (m_sessionManager this) \<Longrightarrow> BoundTokensIssued (m_sessionManager (Serve P this request))"
proof (cases request)
  case (ReqInitializeNewWallet rnd username password)
  assume "BoundTokensIssued (m_sessionManager this)"
  with InitializeNewWallet_sessions [of P rnd this username password] ReqInitializeNewWallet
  show ?thesis by (auto simp: BoundTokensIssued_Login_seed)
qed (simp_all add: Login_sessions BoundTokensIssued_Login Logout_def BoundTokensIssued_Logout
       Send_sessions Receive_sessions)

lemma BoundTokensIssued_ServeAll:
  "BoundTokensIssued (m_sessionManager this) \<Longrightarrow>
     BoundTokensIssued (m_sessionManager (ServeAll P this requests))"
  unfolding ServeAll_def
  by (induction requests arbitrary: this) (simp_all add: BoundTokensIssued_Serve)

lemma BoundTokensIssued_Start:
  "BoundTokensIssued (m_sessionManager (StartWalletManager nodeClient pWalletDB))"
  by (simp add: BoundTokensIssued_def StartWalletManager_def)

text \<open>
  Claim C5: after Logout(token), every later \<^verbatim>\<open>GetSeed(token)\<close> and \<^verbatim>\<open>GetWallet(token)\<close>, and
  so every operation of the facade that takes the token, fails with InvalidSessionError,
  whatever requests the manager serves in between: the token is never usable again. A
  session token is one that the manager has issued since it was started.
\<close>

theorem Logout_is_final:
  assumes "this = ServeAll P (StartWalletManager nodeClient pWalletDB) history"
      and "token < m_nextSessionId (m_sessionManager this)"
      and "after = ServeAll P (Logout this token) future"
  shows "GetSeed (m_sessionManager after) token = Inl InvalidSessionError
       \<and> GetWallet (m_sessionManager after) token = Inl InvalidSessionError
       \<and> GetWalletSummary after token minimumConfirmations = Inl InvalidSessionError
       \<and> fst (Send P' rnd after token amount feeBase messageOpt strategy) = Inl InvalidSessionError
       \<and> fst (Receive P' rnd after token slate messageOpt) = Inl InvalidSessionError
       \<and> Finalize P' after token slate = Inl InvalidSessionError"
proof -
  have "BoundTokensIssued (m_sessionManager this)"
    unfolding assms(1) by (intro BoundTokensIssued_ServeAll BoundTokensIssued_Start)
  then have "LoggedOut token (m_sessionManager (Logout this token))"
    using assms(2)
    by (auto simp: LoggedOut_def BoundTokensIssued_def Logout_def SessionManager_Logout_def)
  then have "LoggedOut token (m_sessionManager after)"
    unfolding assms(3) by (rule LoggedOut_ServeAll)
  then have "m_sessionsById (m_sessionManager after) token = None"
    by (simp add: LoggedOut_def)
  then show ?thesis
    by (simp add: GetSeed_def GetWallet_def GetWalletSummary_def Send_def Receive_def
        Finalize_def Let_def)
qed

text \<open>
  The theorem of claim C5 on token 0: bound by a login, logged out, and still unknown after
  two more sessions have been opened, while the later token 1 resolves.
\<close>

theorem Logout_is_final_witness:
  "GetSeed (m_sessionManager
      (ServeAll ExamplePrimitives (StartWalletManager \<lparr>GetChainHeight = 100\<rparr> (ExampleDB []))
         [ReqLogin ''alice'' ''pw''])) 0 = Inr 7
   \<and> GetSeed (m_sessionManager
      (ServeAll ExamplePrimitives
         (Logout (ServeAll ExamplePrimitives
                    (StartWalletManager \<lparr>GetChainHeight = 100\<rparr> (ExampleDB []))
                    [ReqLogin ''alice'' ''pw'']) 0)
         [ReqLogin ''alice'' ''pw'', ReqInitializeNewWallet 11 ''bob'' ''pw'', ReqLogout 0])) 0
     = Inl InvalidSessionError
   \<and> GetSeed (m_sessionManager
      (ServeAll ExamplePrimitives
         (Logout (ServeAll ExamplePrimitives
                    (StartWalletManager \<lparr>GetChainHeight = 100\<rparr> (ExampleDB []))
                    [ReqLogin ''alice'' ''pw'']) 0)
         [ReqLogin ''alice'' ''pw'', ReqInitializeNewWallet 11 ''bob'' ''pw'', ReqLogout 0])) 1
     = Inr 7"
proof -
  let ?start = "StartWalletManager \<lparr>GetChainHeight = 100\<rparr> (ExampleDB [])"
  let ?wm = "ServeAll ExamplePrimitives ?start [ReqLogin ''alice'' ''pw'']"
  let ?future = "[ReqLogin ''alice'' ''pw'', ReqInitializeNewWallet 11 ''bob'' ''pw'', ReqLogout 0]"
  have wm: "m_sessionManager ?wm =
      \<lparr>m_sessionsById = [0 \<mapsto> \<lparr>m_seed = 7, m_wallet = Wallet ''alice''\<rparr>], m_nextSessionId = 1\<rparr>"
    by (simp add: ServeAll_def Login_def SessionManager_Login_def SessionManager_Login_seed_def
        StartWalletManager_def ExampleDB_def ExamplePrimitives_def Let_def)
  have issued: "0 < m_nextSessionId (m_sessionManager ?wm)"
    by (simp add: wm)
  have before: "GetSeed (m_sessionManager ?wm) 0 = Inr 7"
    by (simp add: wm GetSeed_def)
  have other: "GetSeed (m_sessionManager (ServeAll ExamplePrimitives (Logout ?wm 0) ?future)) 1 = Inr 7"
    by code_simp
  from Logout_is_final [OF refl issued refl, of ?future] before other
  show ?thesis by simp
qed

section \<open>The slate operations\<close>

lemma Candidates_subseqs:
  "set (Candidates strategy coins) \<subseteq> set (subseqs (SpendableCoins coins))"
  by (cases strategy) (simp_all add: Candidates_def subseqs_refl)

lemma SelectCoins_None:
  assumes "\<forall>selection \<in> set (subseqs (SpendableCoins coins)). \<not> Covers P coins amount feeBase selection"
  shows "SelectCoins P strategy coins amount feeBase = None"
proof -
  have "filter (Covers P coins amount feeBase) (Candidates strategy coins) = []"
    using assms Candidates_subseqs [of strategy coins] by (auto simp: filter_empty_conv)
  then show ?thesis by (simp add: SelectCoins_def)
qed

text \<open>
  Claim C6: in a valid session, if no subset of the spendable coins covers the amount plus
  the fee, then Send fails with InsufficientFundsError, produces no slate and locks no
  coin: the manager is left as it was.
\<close>

theorem Send_insufficient_funds:
  assumes "m_sessionsById (m_sessionManager this) token = Some session"
      and "coins = GetAllAvailableCoins (m_pWalletDB this) (m_wallet session) (m_seed session)"
      and "\<forall>selection \<in> set (subseqs (SpendableCoins coins)).
             TotalAmount coins selection < unat amount + RequiredFee P feeBase selection"
  shows "Send P rnd this token amount feeBase messageOpt strategy
           = (Inl InsufficientFundsError, this)"
proof -
  have "\<forall>selection \<in> set (subseqs (SpendableCoins coins)). \<not> Covers P coins amount feeBase selection"
    using assms(3) by (auto simp: Covers_def)
  then have "SelectCoins P strategy coins amount feeBase = None"
    by (rule SelectCoins_None)
  with assms(1,2) show ?thesis
    by (simp add: Send_def GetSeed_def GetWallet_def BuildSendSlate_def Let_def)
qed

lemma example_spendable:
  "SpendableCoins [Coin 10 UNSPENT, Coin 20 UNSPENT, Coin 30 LOCKED] = [0, 1]"
  by (simp add: SpendableCoins_def Coin_def upt_rec)

text \<open>
  The theorem of claim C6 on a wallet whose spendable coins are 10 and 20, asked for 35
  with a fee of 1, under both strategies.
\<close>

theorem Send_insufficient_funds_witness:
  "Send ExamplePrimitives 9 (ExampleManager 100 [Coin 10 UNSPENT, Coin 20 UNSPENT, Coin 30 LOCKED])
      0 35 1 None STRATEGY_SMALLEST
     = (Inl InsufficientFundsError,
        ExampleManager 100 [Coin 10 UNSPENT, Coin 20 UNSPENT, Coin 30 LOCKED])
   \<and> Send ExamplePrimitives 9 (ExampleManager 100 [Coin 10 UNSPENT, Coin 20 UNSPENT, Coin 30 LOCKED])
      0 35 1 None STRATEGY_ALL
     = (Inl InsufficientFundsError,
        ExampleManager 100 [Coin 10 UNSPENT, Coin 20 UNSPENT, Coin 30 LOCKED])"
proof -
  let ?coins = "[Coin 10 UNSPENT, Coin 20 UNSPENT, Coin 30 LOCKED]"
  let ?wm = "ExampleManager 100 ?coins"
  let ?session = "\<lparr>m_seed = 7, m_wallet = Wallet ''alice''\<rparr>"
  have s: "m_sessionsById (m_sessionManager ?wm) 0 = Some ?session"
    by (simp add: ExampleManager_def)
  have c: "?coins = GetAllAvailableCoins (m_pWalletDB ?wm) (m_wallet ?session) (m_seed ?session)"
    by (simp add: GetAllAvailableCoins_def ExampleManager_def ExampleDB_def)
  have n: "\<forall>selection \<in> set (subseqs (SpendableCoins ?coins)).
             TotalAmount ?coins selection < unat (35::uint64_t) + RequiredFee ExamplePrimitives 1 selection"
    unfolding example_spendable
    by (simp add: TotalAmount_def RequiredFee_def ExamplePrimitives_def Coin_def)
  from Send_insufficient_funds [OF s c n] show ?thesis by simp
qed

lemma Finalize_valid:
  "m_sessionsById (m_sessionManager this) token = Some session \<Longrightarrow>
   Finalize P this token slate =
     SlateBuilder_Finalize P (m_pWalletDB this) (m_wallet session) (m_seed session) slate"
  by (simp add: Finalize_def GetSeed_def GetWallet_def)

lemma SlateBuilder_Finalize_cases:
  "(\<exists>tx. SlateBuilder_Finalize P db wallet masterSeed slate = Inr tx \<and> Balances tx)
   \<or> SlateBuilder_Finalize P db wallet masterSeed slate = Inl InvalidSlateError"
  by (simp add: SlateBuilder_Finalize_def Let_def split: list.splits option.splits)

text \<open>
  Claim C1, as amended: Finalize either returns a transaction whose input amounts sum
  to the output amounts plus the fee, or fails with InvalidSlateError, or, when the token
  is unknown or logged out, fails with InvalidSessionError. It never returns an unbalanced
  transaction.
\<close>

theorem Finalize_balanced_or_fails:
  "(\<exists>tx. Finalize P this token slate = Inr tx
         \<and> sum_list (m_txInputs tx) = sum_list (m_txOutputs tx) + m_txFee tx)
   \<or> Finalize P this token slate = Inl InvalidSlateError
   \<or> (Finalize P this token slate = Inl InvalidSessionError
       \<and> m_sessionsById (m_sessionManager this) token = None)"
proof (cases "m_sessionsById (m_sessionManager this) token")
  case None
  then show ?thesis by (simp add: Finalize_def GetSeed_def)
next
  case (Some session)
  with SlateBuilder_Finalize_cases [of P "m_pWalletDB this" "m_wallet session" "m_seed session" slate]
  show ?thesis by (auto simp: Finalize_valid Balances_def)
qed

text \<open>
  The theorem of claim C1 on a slate that balances, on one whose fee has been raised and on
  one in the wrong phase.
\<close>

theorem Finalize_balanced_or_fails_witness:
  "Finalize ExamplePrimitives (ExampleManager 100 []) 0 (ExampleSlate RECEIVED)
     = Inr \<lparr>m_txInputs = [30], m_txOutputs = [4, 25], m_txFee = 1, m_kernelSignature = 18\<rparr>
   \<and> Finalize ExamplePrimitives (ExampleManager 100 []) 0 ((ExampleSlate RECEIVED)\<lparr>m_fee := 2\<rparr>)
     = Inl InvalidSlateError
   \<and> Finalize ExamplePrimitives (ExampleManager 100 []) 0 (ExampleSlate CREATED)
     = Inl InvalidSlateError"
proof -
  have 1: "Finalize ExamplePrimitives (ExampleManager 100 []) 0 (ExampleSlate RECEIVED)
     = Inr \<lparr>m_txInputs = [30], m_txOutputs = [4, 25], m_txFee = 1, m_kernelSignature = 18\<rparr>"
    by (simp add: Finalize_def GetSeed_def GetWallet_def SlateBuilder_Finalize_def Balances_def
        ExampleManager_def ExampleSlate_def ExamplePrimitives_def Let_def)
  have 2: "Finalize ExamplePrimitives (ExampleManager 100 []) 0 ((ExampleSlate RECEIVED)\<lparr>m_fee := 2\<rparr>)
     \<noteq> Inl InvalidSessionError"
    by (simp add: Finalize_def GetSeed_def GetWallet_def SlateBuilder_Finalize_def Balances_def
        ExampleManager_def ExampleSlate_def ExamplePrimitives_def Let_def)
  have 3: "\<not> (\<exists>tx. Finalize ExamplePrimitives (ExampleManager 100 []) 0
                  ((ExampleSlate RECEIVED)\<lparr>m_fee := 2\<rparr>) = Inr tx)"
    by (simp add: Finalize_def GetSeed_def GetWallet_def SlateBuilder_Finalize_def Balances_def
        ExampleManager_def ExampleSlate_def ExamplePrimitives_def Let_def)
  have 4: "Finalize ExamplePrimitives (ExampleManager 100 []) 0 (ExampleSlate CREATED)
     = Inl InvalidSlateError"
    by (simp add: Finalize_def GetSeed_def GetWallet_def SlateBuilder_Finalize_def
        ExampleManager_def ExampleSlate_def)
  from Finalize_balanced_or_fails
    [of ExamplePrimitives "ExampleManager 100 []" 0 "(ExampleSlate RECEIVED)\<lparr>m_fee := 2\<rparr>"] 2 3
  have "Finalize ExamplePrimitives (ExampleManager 100 []) 0 ((ExampleSlate RECEIVED)\<lparr>m_fee := 2\<rparr>)
     = Inl InvalidSlateError" by blast
  with 1 4 show ?thesis by simp
qed

text \<open>
  Against claim C1 as stated (a balanced transaction or InvalidSlateError, for every
  token): once token 0 is logged out, Finalize fails with InvalidSessionError, on the
  slate that it turns into a transaction for the live session.
\<close>

theorem Finalize_logged_out_token:
  "Finalize ExamplePrimitives (Logout (ExampleManager 100 []) 0) 0 (ExampleSlate RECEIVED)
     = Inl InvalidSessionError"
  by (simp add: Finalize_def GetSeed_def Logout_def SessionManager_Logout_def ExampleManager_def)

text \<open>
  The slates that the protocol builds pass the balance check of Finalize: a selection is
  a covering subset of the spendable coins, the slate that BuildSendSlate returns pays for
  its change, the amount and the fee, and a slate that AddReceiverData has accepted
  balances.
\<close>

lemma foldl_Better_mem:
  "foldl (Better P coins amount feeBase) best selections \<in> set (best # selections)"
proof (induction selections arbitrary: best)
  case Nil
  show ?case by simp
next
  case (Cons selection selections)
  from Cons [of "Better P coins amount feeBase best selection"]
  show ?case by (auto simp: Better_def split: if_splits)
qed

lemma SelectCoins_Some:
  assumes "SelectCoins P strategy coins amount feeBase = Some selection"
  shows "Covers P coins amount feeBase selection
       \<and> selection \<in> set (subseqs (SpendableCoins coins))"
proof -
  from assms obtain first others where
    f: "filter (Covers P coins amount feeBase) (Candidates strategy coins) = first # others"
    and s: "selection = foldl (Better P coins amount feeBase) first others"
    by (auto simp: SelectCoins_def split: list.splits)
  from s foldl_Better_mem [of P coins amount feeBase first others]
  have "selection \<in> set (filter (Covers P coins amount feeBase) (Candidates strategy coins))"
    by (simp add: f)
  then have "Covers P coins amount feeBase selection" and "selection \<in> set (Candidates strategy coins)"
    by simp_all
  moreover have "set (Candidates strategy coins) \<subseteq> set (subseqs (SpendableCoins coins))"
    by (cases strategy) (simp_all add: Candidates_def subseqs_refl)
  ultimately show ?thesis by blast
qed

lemma BuildSendSlate_consistent:
  assumes "BuildSendSlate P rnd db wallet masterSeed amount feeBase messageOpt strategy
             = (Inr slate, db')"
  shows "m_phase slate = CREATED
       \<and> sum_list (m_inputs slate)
           = sum_list (m_outputs_so_far slate) + m_amount slate + m_fee slate"
proof -
  let ?coins = "GetAllAvailableCoins db wallet masterSeed"
  from assms obtain selection where
    sel: "SelectCoins P strategy ?coins amount feeBase = Some selection"
    by (auto simp: BuildSendSlate_def Let_def split: option.splits)
  then have "Covers P ?coins amount feeBase selection"
    by (simp add: SelectCoins_Some)
  then have "unat amount + RequiredFee P feeBase selection \<le> TotalAmount ?coins selection"
    by (simp add: Covers_def)
  with assms sel show ?thesis
    by (auto simp: BuildSendSlate_def Let_def TotalAmount_def)
qed

lemma AddReceiverData_accepted:
  assumes "AddReceiverData P rnd db wallet masterSeed slate messageOpt = ((True, slate'), db')"
  shows "m_phase slate = CREATED \<and> m_phase slate' = RECEIVED
       \<and> sum_list (m_inputs slate') = sum_list (m_outputs_so_far slate') + m_fee slate'"
  using assms by (auto simp: AddReceiverData_def split: if_splits)

text \<open>
  A round trip on the example inputs, with the spec's scenario for the selection: of
  the coins 10, 20 and 30, a request for 25 with a fee of 1 selects the coin 30 and leaves
  a change of 4.
\<close>

lemma round_trip_example:
  "fst (Send ExamplePrimitives 9
      (ExampleManager 100 [Coin 10 UNSPENT, Coin 20 UNSPENT, Coin 30 UNSPENT]) 0 25 1 None
      STRATEGY_SMALLEST)
     = Inr (ExampleSlate CREATED)"
  "m_outputs (m_pWalletDB (snd (Send ExamplePrimitives 9
      (ExampleManager 100 [Coin 10 UNSPENT, Coin 20 UNSPENT, Coin 30 UNSPENT]) 0 25 1 None
      STRATEGY_SMALLEST))) ''alice''
     = [Coin 10 UNSPENT, Coin 20 UNSPENT, Coin 30 LOCKED]"
  "fst (Receive ExamplePrimitives 3 (ExampleManager 100 []) 0 (ExampleSlate CREATED) None)
     = Inr (True, ExampleSlate RECEIVED)"
  "Finalize ExamplePrimitives
      (ExampleManager 100 [Coin 10 UNSPENT, Coin 20 UNSPENT, Coin 30 LOCKED]) 0
      (ExampleSlate RECEIVED)
     = Inr \<lparr>m_txInputs = [30], m_txOutputs = [4, 25], m_txFee = 1, m_kernelSignature = 18\<rparr>"
  by code_simp+

end
